theory Spec2Isabelle
  imports Main "HOL-Library.AList"
begin

section \<open>Strings and the string methods the code uses\<close>

text \<open>
  A Python \<open>str\<close> is modelled as a \<open>string\<close> (a list of 8-bit characters), so the model
  covers texts whose code points are below 256; among those the only characters matched by
  the regular expression class \<open>\d\<close> are \<open>0\<close> .. \<open>9\<close>. Python integers are \<open>int\<close>.
  The interpreter's optional limit on the length of a decimal string given to \<open>int()\<close> is
  not modelled.
\<close>

definition startswith :: "string \<Rightarrow> string \<Rightarrow> bool" where
  "startswith line p = (take (length p) line = p)"

text \<open>\<open>s.split('\n')\<close>: the pieces between the newlines, always at least one piece.\<close>

fun split_nl :: "string \<Rightarrow> string list" where
  "split_nl [] = [[]]"
| "split_nl (c # cs) =
     (if c = CHR 0x0A then [] # split_nl cs
      else (case split_nl cs of [] \<Rightarrow> [[c]] | l # ls \<Rightarrow> (c # l) # ls))"

text \<open>\<open>'\n'.join(xs)\<close>.\<close>

fun join_nl :: "string list \<Rightarrow> string" where
  "join_nl [] = []"
| "join_nl [x] = x"
| "join_nl (x # y # ys) = x @ CHR 0x0A # join_nl (y # ys)"

definition is_digit :: "char \<Rightarrow> bool" where
  "is_digit c = (c \<in> set ''0123456789'')"

definition digit_val :: "char \<Rightarrow> int" where
  "digit_val c = int (of_char c) - 48"

text \<open>\<open>int(s)\<close> on a non-empty string of decimal digits.\<close>

definition int_of_digits :: "string \<Rightarrow> int" where
  "int_of_digits ds = foldl (\<lambda>n c. 10 * n + digit_val c) 0 ds"

text \<open>
  \<open>re.search(r'\+(\d+)', line)\<close>: the leftmost \<open>+\<close> that is followed by a digit, with the
  longest run of digits after it as group 1; \<open>None\<close> when there is no such place.
\<close>

fun re_search_plus_digits :: "string \<Rightarrow> string option" where
  "re_search_plus_digits [] = None"
| "re_search_plus_digits (c # cs) =
     (if c = CHR ''+'' \<and> takeWhile is_digit cs \<noteq> [] then Some (takeWhile is_digit cs)
      else re_search_plus_digits cs)"

text \<open>
  \<open>re.search(r'b/(.+)$', line)\<close>: the leftmost \<open>b/\<close> at which \<open>.+$\<close> matches. \<open>.\<close> matches
  every character but a newline and \<open>$\<close> matches at the end of the string or before a
  newline that ends it, so \<open>.+\<close> must take the whole run of non-newline characters after
  \<open>b/\<close>, that run must not be empty, and what follows it must be nothing or one final
  newline. Group 1 is that run.
\<close>

definition dot_plus_eol :: "string \<Rightarrow> string option" where
  "dot_plus_eol r =
     (let m = takeWhile (\<lambda>c. c \<noteq> CHR 0x0A) r; t = dropWhile (\<lambda>c. c \<noteq> CHR 0x0A) r
      in if m \<noteq> [] \<and> (t = [] \<or> t = [CHR 0x0A]) then Some m else None)"

fun re_search_b :: "string \<Rightarrow> string option" where
  "re_search_b [] = None"
| "re_search_b (c # cs) =
     (if c = CHR ''b'' \<and> startswith cs ''/'' \<and> dot_plus_eol (drop 1 cs) \<noteq> None
      then dot_plus_eol (drop 1 cs)
      else re_search_b cs)"

section \<open>models.py: FileChange\<close>

record FileChange =
  filename :: string
  additions :: int
  deletions :: int
  patch :: string
  status :: string

section \<open>diff_parser.py: parse_diff\<close>

text \<open>
  The three local variables of \<open>parse_diff\<close>: \<open>files\<close>, \<open>current_file\<close> (\<open>None\<close> before
  the first header) and \<open>current_patch\<close>.
\<close>

record parse_state =
  files :: "FileChange list"
  current_file :: "FileChange option"
  current_patch :: "string list"

text \<open>
  \<open>if current_file: current_file['patch'] = '\n'.join(current_patch); files.append(...)\<close>,
  as it stands before a new header and after the loop.
\<close>

definition flush :: "parse_state \<Rightarrow> FileChange list" where
  "flush st =
     (case current_file st of
        None \<Rightarrow> files st
      | Some f \<Rightarrow> files st @ [f\<lparr>patch := join_nl (current_patch st)\<rparr>])"

definition header_filename :: "string \<Rightarrow> string" where
  "header_filename line = (case re_search_b line of Some g \<Rightarrow> g | None \<Rightarrow> ''unknown'')"

text \<open>One iteration of the loop over the lines, the branches in the order of the source.\<close>

definition parse_step :: "parse_state \<Rightarrow> string \<Rightarrow> parse_state" where
  "parse_step st line =
     (if startswith line ''diff --git'' then
        \<lparr>files = flush st,
         current_file = Some \<lparr>filename = header_filename line, additions = 0, deletions = 0,
                              patch = [], status = ''modified''\<rparr>,
         current_patch = []\<rparr>
      else if startswith line ''new file'' then
        st\<lparr>current_file := map_option (\<lambda>f. f\<lparr>status := ''added''\<rparr>) (current_file st)\<rparr>
      else if startswith line ''deleted file'' then
        st\<lparr>current_file := map_option (\<lambda>f. f\<lparr>status := ''deleted''\<rparr>) (current_file st)\<rparr>
      else if startswith line ''+'' \<and> \<not> startswith line ''+++'' then
        st\<lparr>current_file := map_option (\<lambda>f. f\<lparr>additions := additions f + 1\<rparr>) (current_file st),
           current_patch := current_patch st @ [line]\<rparr>
      else if startswith line ''-'' \<and> \<not> startswith line ''---'' then
        st\<lparr>current_file := map_option (\<lambda>f. f\<lparr>deletions := deletions f + 1\<rparr>) (current_file st),
           current_patch := current_patch st @ [line]\<rparr>
      else
        st\<lparr>current_patch := current_patch st @ [line]\<rparr>)"

definition parse_init :: parse_state where
  "parse_init = \<lparr>files = [], current_file = None, current_patch = []\<rparr>"

definition parse_lines :: "string list \<Rightarrow> FileChange list" where
  "parse_lines ls = flush (foldl parse_step parse_init ls)"

definition parse_diff :: "string \<Rightarrow> FileChange list" where
  "parse_diff diff_content = parse_lines (split_nl diff_content)"

section \<open>diff_parser.py: extract_changed_lines and get_file_extension\<close>

text \<open>The dictionaries appended to \<open>changed_lines\<close>, with their four keys.\<close>

record ChangedLine =
  line_number :: int
  type :: string
  content :: string
  raw :: string

text \<open>
  One iteration of the loop of \<open>extract_changed_lines\<close> on the pair of \<open>changed_lines\<close>
  and \<open>current_line_num\<close>. The hunk-header branch ends in \<open>continue\<close>.
\<close>

definition ecl_step :: "ChangedLine list \<times> int \<Rightarrow> string \<Rightarrow> ChangedLine list \<times> int" where
  "ecl_step st line =
     (case st of (changed_lines, current_line_num) \<Rightarrow>
        if startswith line ''@@'' then
          (case re_search_plus_digits line of
             Some g \<Rightarrow> (changed_lines, int_of_digits g)
           | None \<Rightarrow> (changed_lines, current_line_num))
        else if startswith line ''+'' \<and> \<not> startswith line ''+++'' then
          (changed_lines @ [\<lparr>line_number = current_line_num, type = ''addition'',
                              content = drop 1 line, raw = line\<rparr>],
           current_line_num + 1)
        else if startswith line ''-'' \<and> \<not> startswith line ''---'' then
          (changed_lines @ [\<lparr>line_number = current_line_num, type = ''deletion'',
                              content = drop 1 line, raw = line\<rparr>],
           current_line_num)
        else if \<not> startswith line [CHR 0x5C] then
          (changed_lines, current_line_num + 1)
        else (changed_lines, current_line_num))"

definition extract_changed_lines :: "string \<Rightarrow> ChangedLine list" where
  "extract_changed_lines p = fst (foldl ecl_step ([], 0) (split_nl p))"

text \<open>\<open>filename.split('.')[-1] if '.' in filename else ''\<close>.\<close>

definition get_file_extension :: "string \<Rightarrow> string" where
  "get_file_extension name =
     (if CHR ''.'' \<in> set name then rev (takeWhile (\<lambda>c. c \<noteq> CHR ''.'') (rev name)) else [])"

section \<open>The parser's behaviour, said section by section\<close>

text \<open>
  The classes of lines the code tells apart, each by the start of the line alone: a header
  line opens a file section, a status line announces a creation or a deletion, an addition
  line starts with \<open>+\<close> and not with \<open>+++\<close>, a deletion line starts with \<open>-\<close> and not
  with \<open>---\<close>. A line that starts with \<open>+++\<close> or \<open>---\<close> is neither, wherever it stands.
\<close>

definition is_header :: "string \<Rightarrow> bool" where
  "is_header l = startswith l ''diff --git''"

definition is_status_line :: "string \<Rightarrow> bool" where
  "is_status_line l = (startswith l ''new file'' \<or> startswith l ''deleted file'')"

definition is_addition :: "string \<Rightarrow> bool" where
  "is_addition l = (startswith l ''+'' \<and> \<not> startswith l ''+++'')"

definition is_deletion :: "string \<Rightarrow> bool" where
  "is_deletion l = (startswith l ''-'' \<and> \<not> startswith l ''---'')"

text \<open>
  The file sections of a list of lines: each header line with the lines that follow it up
  to the next header line. Lines before the first header belong to no section.
\<close>

fun sections :: "string list \<Rightarrow> (string \<times> string list) list" where
  "sections [] = []"
| "sections (l # ls) =
     (if is_header l then (l, takeWhile (\<lambda>x. \<not> is_header x) ls) # sections ls
      else sections ls)"

definition status_step :: "string \<Rightarrow> string \<Rightarrow> string" where
  "status_step s l =
     (if startswith l ''new file'' then ''added''
      else if startswith l ''deleted file'' then ''deleted'' else s)"

text \<open>
  The record a section stands for: counts of its addition and deletion lines, the status
  its last status line announces, and as patch its lines without the status lines.
\<close>

definition file_of_section :: "string \<times> string list \<Rightarrow> FileChange" where
  "file_of_section sec =
     (case sec of (h, body) \<Rightarrow>
        \<lparr>filename = header_filename h,
         additions = int (length (filter is_addition body)),
         deletions = int (length (filter is_deletion body)),
         patch = join_nl (filter (\<lambda>l. \<not> is_status_line l) body),
         status = foldl status_step ''modified'' body\<rparr>)"










section \<open>models.py: findings, analyzer outputs, the aggregated review\<close>

datatype Severity = CRITICAL | HIGH | MEDIUM | LOW | INFO

datatype IssueCategory =
  LOGIC | SECURITY | PERFORMANCE | READABILITY | BEST_PRACTICES | TESTING | DOCUMENTATION

text \<open>The \<open>value\<close> of a member of the enumeration \<open>IssueCategory\<close>.\<close>

fun category_value :: "IssueCategory \<Rightarrow> string" where
  "category_value LOGIC = ''logic''"
| "category_value SECURITY = ''security''"
| "category_value PERFORMANCE = ''performance''"
| "category_value READABILITY = ''readability''"
| "category_value BEST_PRACTICES = ''best_practices''"
| "category_value TESTING = ''testing''"
| "category_value DOCUMENTATION = ''documentation''"

text \<open>
  \<open>ReviewIssue\<close>. Its fields \<open>line_number\<close> and \<open>filename\<close> are written \<open>issue_line_number\<close>
  and \<open>issue_filename\<close> here, the short names being taken by the records above.
\<close>

record ReviewIssue =
  category :: IssueCategory
  severity :: Severity
  issue_line_number :: "int option"
  issue_filename :: string
  code_snippet :: string
  issue_description :: string
  recommendation :: string
  reasoning :: string

record LogicAnalysisOutput =
  issues :: "ReviewIssue list"
  potential_bugs :: "string list"
  edge_cases_missing :: "string list"

record SecurityAnalysisOutput =
  vulnerabilities :: "ReviewIssue list"
  security_score :: int
  critical_issues :: "string list"

record PerformanceAnalysisOutput =
  bottlenecks :: "ReviewIssue list"
  optimization_suggestions :: "string list"
  complexity_warnings :: "string list"

record ReadabilityAnalysisOutput =
  style_issues :: "ReviewIssue list"
  naming_suggestions :: "string list"
  documentation_needed :: "string list"
  readability_score :: int

record TestingAnalysisOutput =
  missing_tests :: "string list"
  test_coverage_concerns :: "string list"
  test_quality_issues :: "ReviewIssue list"

text \<open>
  \<open>AggregatedReview\<close>. The dictionary \<open>summary_by_category\<close> is an association list in
  insertion order, each key once.
\<close>

record AggregatedReview =
  overall_assessment :: string
  approval_status :: string
  critical_blockers :: "ReviewIssue list"
  all_issues :: "ReviewIssue list"
  strengths :: "string list"
  summary_by_category :: "(string \<times> int) list"
  priority_actions :: "string list"

section \<open>agents.py: the five analyzers\<close>

text \<open>An exception, with its message.\<close>

datatype error = Error string

text \<open>
  The context dictionary built for one file, with its keys \<open>filename\<close>, \<open>language\<close>,
  \<open>changes\<close> and \<open>patch\<close>.
\<close>

record AnalysisContext =
  ctx_filename :: string
  language :: string
  changes :: string
  ctx_patch :: string

text \<open>
  Each agent's \<open>analyze\<close> invokes its chain (prompt, remote model, output parser), which
  returns a parsed output or raises; the chain is what tells one agent of a class from
  another, and an agent is given by it. \<open>analyze\<close> catches every exception of the chain and
  returns the agent's empty output, so it always returns.
\<close>

definition LogicAnalysisAgent_analyze ::
  "(AnalysisContext \<Rightarrow> error + LogicAnalysisOutput) \<Rightarrow> AnalysisContext \<Rightarrow> LogicAnalysisOutput" where
  "LogicAnalysisAgent_analyze chain c =
     (case chain c of
        Inr result \<Rightarrow> result
      | Inl e \<Rightarrow> \<lparr>issues = [], potential_bugs = [], edge_cases_missing = []\<rparr>)"

definition SecurityAnalysisAgent_analyze ::
  "(AnalysisContext \<Rightarrow> error + SecurityAnalysisOutput) \<Rightarrow> AnalysisContext \<Rightarrow> SecurityAnalysisOutput" where
  "SecurityAnalysisAgent_analyze chain c =
     (case chain c of
        Inr result \<Rightarrow> result
      | Inl e \<Rightarrow> \<lparr>vulnerabilities = [], security_score = 50, critical_issues = []\<rparr>)"

definition PerformanceAnalysisAgent_analyze ::
  "(AnalysisContext \<Rightarrow> error + PerformanceAnalysisOutput) \<Rightarrow> AnalysisContext \<Rightarrow> PerformanceAnalysisOutput" where
  "PerformanceAnalysisAgent_analyze chain c =
     (case chain c of
        Inr result \<Rightarrow> result
      | Inl e \<Rightarrow> \<lparr>bottlenecks = [], optimization_suggestions = [], complexity_warnings = []\<rparr>)"

definition ReadabilityAnalysisAgent_analyze ::
  "(AnalysisContext \<Rightarrow> error + ReadabilityAnalysisOutput) \<Rightarrow> AnalysisContext \<Rightarrow> ReadabilityAnalysisOutput" where
  "ReadabilityAnalysisAgent_analyze chain c =
     (case chain c of
        Inr result \<Rightarrow> result
      | Inl e \<Rightarrow> \<lparr>style_issues = [], naming_suggestions = [], documentation_needed = [],
                  readability_score = 50\<rparr>)"

definition TestingAnalysisAgent_analyze ::
  "(AnalysisContext \<Rightarrow> error + TestingAnalysisOutput) \<Rightarrow> AnalysisContext \<Rightarrow> TestingAnalysisOutput" where
  "TestingAnalysisAgent_analyze chain c =
     (case chain c of
        Inr result \<Rightarrow> result
      | Inl e \<Rightarrow> \<lparr>missing_tests = [], test_coverage_concerns = [], test_quality_issues = []\<rparr>)"

section \<open>orchestrator.py\<close>

text \<open>
  The dictionary \<open>all_analyses\<close> with its five fixed keys; an entry would be \<open>None\<close> if
  the call of the agent raised. \<open>results\<close> is the dictionary \<open>_analyze_file\<close> returns for
  one file.
\<close>

record analyses =
  logic :: "LogicAnalysisOutput option list"
  security :: "SecurityAnalysisOutput option list"
  performance :: "PerformanceAnalysisOutput option list"
  readability :: "ReadabilityAnalysisOutput option list"
  testing :: "TestingAnalysisOutput option list"

record results =
  logic_result :: "LogicAnalysisOutput option"
  security_result :: "SecurityAnalysisOutput option"
  performance_result :: "PerformanceAnalysisOutput option"
  readability_result :: "ReadabilityAnalysisOutput option"
  testing_result :: "TestingAnalysisOutput option"

text \<open>
  What the aggregation prompt is filled with. The source renders \<open>issues_detail\<close>,
  \<open>agent_insights\<close> and \<open>category_summary\<close> to text before the call; the model hands the
  values they are rendered from (the first 15 issues, the analyses, the dictionary) to the
  chain, which is a parameter.
\<close>

record aggregation_context =
  total_issues :: int
  critical_count :: int
  category_summary :: "(string \<times> int) list"
  issues_detail :: "ReviewIssue list"
  agent_insights :: analyses
  ctx_approval_status :: string

text \<open>
  The orchestrator with the fields its constructor sets: the five agents, each an
  instance of its class in \<open>agents.py\<close> and given by its chain; the chain of prompt,
  aggregator model and output parser, which returns an \<open>AggregatedReview\<close> or raises. One
  more field stands for the test \<open>any('security' in str(a) for a in analyses.values())\<close>,
  which depends on how the library prints its objects and is a parameter.
\<close>

record ReviewOrchestrator =
  logic_agent :: "AnalysisContext \<Rightarrow> error + LogicAnalysisOutput"
  security_agent :: "AnalysisContext \<Rightarrow> error + SecurityAnalysisOutput"
  performance_agent :: "AnalysisContext \<Rightarrow> error + PerformanceAnalysisOutput"
  readability_agent :: "AnalysisContext \<Rightarrow> error + ReadabilityAnalysisOutput"
  testing_agent :: "AnalysisContext \<Rightarrow> error + TestingAnalysisOutput"
  aggregator_llm :: "aggregation_context \<Rightarrow> error + AggregatedReview"
  str_has_security :: "analyses \<Rightarrow> bool"

text \<open>
  \<open>try: results[agent_name] = future.result()\<close>
  \<open>except Exception: results[agent_name] = None\<close>
\<close>

definition future_result :: "error + 'a \<Rightarrow> 'a option" where
  "future_result r = (case r of Inr v \<Rightarrow> Some v | Inl e \<Rightarrow> None)"

definition build_context :: "FileChange \<Rightarrow> AnalysisContext" where
  "build_context file_change =
     \<lparr>ctx_filename = filename file_change,
      language = get_file_extension (filename file_change),
      changes = join_nl (map raw (extract_changed_lines (patch file_change))),
      ctx_patch = patch file_change\<rparr>"

text \<open>
  \<open>_analyze_file\<close>. The five calls \<open>self.logic_agent.analyze(context)\<close> and so on run
  in a thread pool and are collected as they complete into a dictionary keyed by the
  agent's name; no call reads what another writes, so the dictionary is the one below
  whatever the order of completion. Each \<open>analyze\<close> returns, so each future holds a
  result (\<open>Inr\<close>); the \<open>except\<close> branch of the call site is in \<open>future_result\<close>.
\<close>

definition analyze_file :: "ReviewOrchestrator \<Rightarrow> FileChange \<Rightarrow> results" where
  "analyze_file self file_change =
     (let c = build_context file_change in
      \<lparr>logic_result = future_result (Inr (LogicAnalysisAgent_analyze (logic_agent self) c)),
       security_result = future_result (Inr (SecurityAnalysisAgent_analyze (security_agent self) c)),
       performance_result =
         future_result (Inr (PerformanceAnalysisAgent_analyze (performance_agent self) c)),
       readability_result =
         future_result (Inr (ReadabilityAnalysisAgent_analyze (readability_agent self) c)),
       testing_result = future_result (Inr (TestingAnalysisAgent_analyze (testing_agent self) c))\<rparr>)"

text \<open>
  One loop of \<open>_collect_all_issues\<close>:
  \<open>for analysis in ...: if analysis and hasattr(analysis, field): all_issues.extend(...)\<close>.
\<close>

definition extend_issues ::
  "('a \<Rightarrow> ReviewIssue list) \<Rightarrow> ReviewIssue list \<Rightarrow> 'a option list \<Rightarrow> ReviewIssue list" where
  "extend_issues field acc xs =
     foldl (\<lambda>acc analysis. case analysis of None \<Rightarrow> acc | Some a \<Rightarrow> acc @ field a) acc xs"

definition collect_all_issues :: "analyses \<Rightarrow> ReviewIssue list" where
  "collect_all_issues a =
     extend_issues test_quality_issues
       (extend_issues style_issues
         (extend_issues bottlenecks
           (extend_issues vulnerabilities
             (extend_issues issues [] (logic a))
             (security a))
           (performance a))
         (readability a))
       (testing a)"

text \<open>\<open>issue.severity in [Severity.CRITICAL, Severity.HIGH]\<close>.\<close>

definition is_blocker :: "ReviewIssue \<Rightarrow> bool" where
  "is_blocker issue = (severity issue = CRITICAL \<or> severity issue = HIGH)"

text \<open>\<open>d.get(k, default)\<close>, and the counting loop with its \<open>d[k] = d.get(k, 0) + 1\<close>.\<close>

definition dict_get :: "(string \<times> int) list \<Rightarrow> string \<Rightarrow> int \<Rightarrow> int" where
  "dict_get d k dflt = (case map_of d k of Some v \<Rightarrow> v | None \<Rightarrow> dflt)"

definition count_step :: "(string \<times> int) list \<Rightarrow> ReviewIssue \<Rightarrow> (string \<times> int) list" where
  "count_step d issue =
     AList.update (category_value (category issue))
       (dict_get d (category_value (category issue)) 0 + 1) d"

definition count_by_category :: "ReviewIssue list \<Rightarrow> (string \<times> int) list" where
  "count_by_category all = foldl count_step [] all"

text \<open>The four-way \<open>if\<close> that determines the approval status.\<close>

definition determine_approval_status :: "ReviewIssue list \<Rightarrow> string" where
  "determine_approval_status all =
     (if list_ex (\<lambda>issue. severity issue = CRITICAL) all then ''CHANGES_REQUESTED''
      else if filter is_blocker all \<noteq> [] then ''CHANGES_REQUESTED''
      else if all \<noteq> [] then ''COMMENTED''
      else ''APPROVED'')"

definition prompt_context :: "ReviewIssue list \<Rightarrow> analyses \<Rightarrow> aggregation_context" where
  "prompt_context all a =
     \<lparr>total_issues = int (length all),
      critical_count = int (length (filter is_blocker all)),
      category_summary = count_by_category all,
      issues_detail = take 15 all,
      agent_insights = a,
      ctx_approval_status = determine_approval_status all\<rparr>"

text \<open>
  The check made on every issue of the returned review:
  \<open>if not issue.filename or not issue.code_snippet or not issue.issue_description: raise\<close>.
\<close>

definition has_required_fields :: "ReviewIssue \<Rightarrow> bool" where
  "has_required_fields issue =
     (issue_filename issue \<noteq> [] \<and> code_snippet issue \<noteq> [] \<and> issue_description issue \<noteq> [])"

definition accepted :: "AggregatedReview \<Rightarrow> bool" where
  "accepted result =
     (list_all has_required_fields (critical_blockers result) \<and>
      list_all has_required_fields (all_issues result))"

text \<open>The review built in the \<open>except\<close> branch.\<close>

definition basic_review :: "ReviewOrchestrator \<Rightarrow> ReviewIssue list \<Rightarrow> analyses \<Rightarrow> AggregatedReview" where
  "basic_review self all a =
     \<lparr>overall_assessment = ''Review completed with automated analysis.'',
      approval_status = determine_approval_status all,
      critical_blockers = take 10 (filter is_blocker all),
      all_issues = take 50 all,
      strengths = [''Code changes submitted''] @
                  (if str_has_security self a then [''High security score''] else []),
      summary_by_category = count_by_category all,
      priority_actions = [''Review all flagged issues'', ''Address critical blockers first'',
                          ''Improve test coverage'']\<rparr>"

text \<open>
  \<open>_generate_aggregated_review\<close>: the result of the chain is returned as it is when the
  chain returns and the check passes; an exception of either gives the basic review.
\<close>

definition generate_aggregated_review ::
  "ReviewOrchestrator \<Rightarrow> ReviewIssue list \<Rightarrow> analyses \<Rightarrow> AggregatedReview" where
  "generate_aggregated_review self all a =
     (case aggregator_llm self (prompt_context all a) of
        Inr result \<Rightarrow> if accepted result then result else basic_review self all a
      | Inl e \<Rightarrow> basic_review self all a)"

text \<open>
  \<open>review_pr\<close>: the loop over the files, then the collection and the review. The
  returned dictionary is modelled without its \<open>processing_time\<close>, a wall-clock reading.
\<close>

definition no_analyses :: analyses where
  "no_analyses = \<lparr>logic = [], security = [], performance = [], readability = [], testing = []\<rparr>"

definition review_step :: "ReviewOrchestrator \<Rightarrow> analyses \<Rightarrow> FileChange \<Rightarrow> analyses" where
  "review_step self all_analyses file_change =
     (if status file_change = ''deleted'' then all_analyses
      else (let r = analyze_file self file_change in
            \<lparr>logic = logic all_analyses @ [logic_result r],
             security = security all_analyses @ [security_result r],
             performance = performance all_analyses @ [performance_result r],
             readability = readability all_analyses @ [readability_result r],
             testing = testing all_analyses @ [testing_result r]\<rparr>))"

record review_output =
  review :: AggregatedReview
  agent_analyses :: analyses

definition review_pr :: "ReviewOrchestrator \<Rightarrow> FileChange list \<Rightarrow> review_output" where
  "review_pr self fs =
     (let all_analyses = foldl (review_step self) no_analyses fs in
      \<lparr>review = generate_aggregated_review self (collect_all_issues all_analyses) all_analyses,
       agent_analyses = all_analyses\<rparr>)"

section \<open>The orders in which findings can be merged\<close>

text \<open>The findings one entry of an analyzer's sequence carries; a \<open>None\<close> entry carries none.\<close>

definition findings :: "('a \<Rightarrow> ReviewIssue list) \<Rightarrow> 'a option \<Rightarrow> ReviewIssue list" where
  "findings field entry = (case entry of None \<Rightarrow> [] | Some a \<Rightarrow> field a)"

text \<open>
  File order first, analyzer order within each file: the findings of the first file from
  the five analyzers in their declared order, then those of the second file, and so on.
\<close>

fun file_major ::
  "LogicAnalysisOutput option list \<Rightarrow> SecurityAnalysisOutput option list \<Rightarrow>
   PerformanceAnalysisOutput option list \<Rightarrow> ReadabilityAnalysisOutput option list \<Rightarrow>
   TestingAnalysisOutput option list \<Rightarrow> ReviewIssue list" where
  "file_major (l # ls) (s # ss) (p # ps) (r # rs) (t # ts) =
     findings issues l @ findings vulnerabilities s @ findings bottlenecks p @
     findings style_issues r @ findings test_quality_issues t @ file_major ls ss ps rs ts"
| "file_major _ _ _ _ _ = []"

text \<open>Analyzer order first, file order within each analyzer.\<close>

definition analyzer_major :: "analyses \<Rightarrow> ReviewIssue list" where
  "analyzer_major a =
     concat (map (findings issues) (logic a)) @
     concat (map (findings vulnerabilities) (security a)) @
     concat (map (findings bottlenecks) (performance a)) @
     concat (map (findings style_issues) (readability a)) @
     concat (map (findings test_quality_issues) (testing a))"


section \<open>Inputs for the worked examples\<close>

text \<open>A finding of a given category and severity in a given file.\<close>

definition sample_issue :: "IssueCategory \<Rightarrow> Severity \<Rightarrow> string \<Rightarrow> ReviewIssue" where
  "sample_issue c s name =
     \<lparr>category = c, severity = s, issue_line_number = Some 1, issue_filename = name,
      code_snippet = ''x = 1'', issue_description = ''unused value'',
      recommendation = ''remove it'', reasoning = ''dead code''\<rparr>"

text \<open>A modified file with one added line.\<close>

definition sample_file :: "string \<Rightarrow> FileChange" where
  "sample_file name =
     \<lparr>filename = name, additions = 1, deletions = 0, patch = ''@@ -0,0 +1 @@\<newline>+x = 1'',
      status = ''modified''\<rparr>"

text \<open>A call that always raises.\<close>

definition always_raises :: "'a \<Rightarrow> error + 'b" where
  "always_raises c = Inl (Error ''connection refused'')"

text \<open>
  How the test \<open>'security' in str(a)\<close> comes out when an output is printed with the names
  and the values of its fields: a security output always prints \<open>security_score\<close>, an
  issue of the category \<open>security\<close> prints that value, and any text that contains the word
  prints it.
\<close>

fun contains :: "string \<Rightarrow> string \<Rightarrow> bool" where
  "contains needle [] = (needle = [])"
| "contains needle (c # cs) = (startswith (c # cs) needle \<or> contains needle cs)"

definition issue_prints_security :: "ReviewIssue \<Rightarrow> bool" where
  "issue_prints_security i =
     (category i = SECURITY \<or>
      list_ex (contains ''security'')
        [issue_filename i, code_snippet i, issue_description i, recommendation i, reasoning i])"

definition prints_security :: "ReviewIssue list \<Rightarrow> string list \<Rightarrow> bool" where
  "prints_security found texts =
     (list_ex issue_prints_security found \<or> list_ex (contains ''security'') texts)"

definition analyses_print_security :: "analyses \<Rightarrow> bool" where
  "analyses_print_security a =
     (list_ex (\<lambda>e. case e of None \<Rightarrow> False
                 | Some r \<Rightarrow> prints_security (issues r) (potential_bugs r @ edge_cases_missing r))
        (logic a) \<or>
      list_ex (\<lambda>e. e \<noteq> None) (security a) \<or>
      list_ex (\<lambda>e. case e of None \<Rightarrow> False
                 | Some r \<Rightarrow> prints_security (bottlenecks r)
                              (optimization_suggestions r @ complexity_warnings r))
        (performance a) \<or>
      list_ex (\<lambda>e. case e of None \<Rightarrow> False
                 | Some r \<Rightarrow> prints_security (style_issues r)
                              (naming_suggestions r @ documentation_needed r))
        (readability a) \<or>
      list_ex (\<lambda>e. case e of None \<Rightarrow> False
                 | Some r \<Rightarrow> prints_security (test_quality_issues r)
                              (missing_tests r @ test_coverage_concerns r))
        (testing a))"

text \<open>
  An orchestrator whose agents find nothing and whose aggregation chain is down; the
  examples replace one or two of its fields.
\<close>

definition quiet_orchestrator :: ReviewOrchestrator where
  "quiet_orchestrator =
     \<lparr>logic_agent = (\<lambda>c. Inr \<lparr>issues = [], potential_bugs = [], edge_cases_missing = []\<rparr>),
      security_agent =
        (\<lambda>c. Inr \<lparr>vulnerabilities = [], security_score = 100, critical_issues = []\<rparr>),
      performance_agent =
        (\<lambda>c. Inr \<lparr>bottlenecks = [], optimization_suggestions = [], complexity_warnings = []\<rparr>),
      readability_agent =
        (\<lambda>c. Inr \<lparr>style_issues = [], naming_suggestions = [], documentation_needed = [],
                   readability_score = 100\<rparr>),
      testing_agent =
        (\<lambda>c. Inr \<lparr>missing_tests = [], test_coverage_concerns = [], test_quality_issues = []\<rparr>),
      aggregator_llm = always_raises,
      str_has_security = analyses_print_security\<rparr>"

text \<open>The chain of a logic agent that reports the given findings for every file.\<close>

definition logic_reports :: "ReviewIssue list \<Rightarrow> AnalysisContext \<Rightarrow> error + LogicAnalysisOutput" where
  "logic_reports found c = Inr \<lparr>issues = found, potential_bugs = [], edge_cases_missing = []\<rparr>"

text \<open>Chains of agents that report one finding for the file they are given.\<close>

definition logic_flags_file :: "AnalysisContext \<Rightarrow> error + LogicAnalysisOutput" where
  "logic_flags_file c =
     Inr \<lparr>issues = [sample_issue LOGIC MEDIUM (ctx_filename c)], potential_bugs = [],
          edge_cases_missing = []\<rparr>"

definition security_flags_file :: "AnalysisContext \<Rightarrow> error + SecurityAnalysisOutput" where
  "security_flags_file c =
     Inr \<lparr>vulnerabilities = [sample_issue SECURITY MEDIUM (ctx_filename c)], security_score = 70,
          critical_issues = []\<rparr>"

text \<open>An aggregation chain that answers with a review of its own making.\<close>

definition answers_with :: "AggregatedReview \<Rightarrow> aggregation_context \<Rightarrow> error + AggregatedReview" where
  "answers_with r c = Inr r"

definition approving_review :: "ReviewIssue list \<Rightarrow> AggregatedReview" where
  "approving_review found =
     \<lparr>overall_assessment = ''The change is in good shape.'', approval_status = ''APPROVED'',
      critical_blockers = filter is_blocker found, all_issues = found,
      strengths = [''Small change''], summary_by_category = count_by_category found,
      priority_actions = []\<rparr>"

definition commenting_review :: AggregatedReview where
  "commenting_review =
     \<lparr>overall_assessment = ''Some remarks.'', approval_status = ''COMMENTED'',
      critical_blockers = [], all_issues = [sample_issue READABILITY LOW ''main.py''],
      strengths = [], summary_by_category = [(''readability'', 1)],
      priority_actions = [''Rename the variable'']\<rparr>"

text \<open>
  An answer whose parts do not fit together: a critical blocker that is not among its
  issues and a tally of five for its one issue.
\<close>

definition careless_review :: AggregatedReview where
  "careless_review =
     \<lparr>overall_assessment = ''Nothing serious.'', approval_status = ''APPROVED'',
      critical_blockers = [sample_issue SECURITY CRITICAL ''main.py''],
      all_issues = [sample_issue LOGIC LOW ''main.py''],
      strengths = [], summary_by_category = [(''logic'', 5)],
      priority_actions = []\<rparr>"

text \<open>An answer with an issue that has no code snippet, which the check refuses.\<close>

definition incomplete_review :: AggregatedReview where
  "incomplete_review =
     \<lparr>overall_assessment = ''One remark.'', approval_status = ''APPROVED'',
      critical_blockers = [],
      all_issues = [(sample_issue LOGIC LOW ''main.py'')\<lparr>code_snippet := []\<rparr>],
      strengths = [], summary_by_category = [(''logic'', 1)],
      priority_actions = []\<rparr>"

section \<open>Lemmas about the parser\<close>

lemma startswith_hd: "startswith l (c # p) \<Longrightarrow> l \<noteq> [] \<and> hd l = c"
  by (cases l) (auto simp: startswith_def)

lemma status_not_add: "is_status_line l \<Longrightarrow> \<not> is_addition l \<and> \<not> is_deletion l"
  by (auto simp: is_status_line_def is_addition_def is_deletion_def dest!: startswith_hd)

lemma add_not_del: "is_addition l \<Longrightarrow> \<not> is_deletion l"
  by (auto simp: is_addition_def is_deletion_def dest!: startswith_hd)

lemma parse_step_body:
  assumes "\<not> is_header l"
  shows "parse_step st l =
     \<lparr>files = files st,
      current_file = map_option (\<lambda>f. f\<lparr>additions := additions f + (if is_addition l then 1 else 0),
                                      deletions := deletions f + (if is_deletion l then 1 else 0),
                                      status := status_step (status f) l\<rparr>) (current_file st),
      current_patch = current_patch st @ (if is_status_line l then [] else [l])\<rparr>"
proof (cases "is_status_line l")
  case True
  with assms status_not_add[OF True] show ?thesis
    by (cases "current_file st")
       (auto simp: parse_step_def is_header_def is_status_line_def status_step_def
                   is_addition_def is_deletion_def)
next
  case False
  with assms add_not_del[of l] show ?thesis
    by (cases "current_file st")
       (auto simp: parse_step_def is_header_def is_status_line_def status_step_def
                   is_addition_def is_deletion_def)
qed


lemma foldl_parse_step_body:
  assumes "\<forall>l\<in>set ls. \<not> is_header l"
  shows "foldl parse_step st ls =
     \<lparr>files = files st,
      current_file = map_option (\<lambda>f. f\<lparr>additions := additions f + int (length (filter is_addition ls)),
                                      deletions := deletions f + int (length (filter is_deletion ls)),
                                      status := foldl status_step (status f) ls\<rparr>) (current_file st),
      current_patch = current_patch st @ filter (\<lambda>l. \<not> is_status_line l) ls\<rparr>"
  using assms
proof (induction ls arbitrary: st)
  case Nil
  show ?case by (cases "current_file st") simp_all
next
  case (Cons l ls)
  have nh: "\<not> is_header l" and rest: "\<forall>x\<in>set ls. \<not> is_header x"
    using Cons.prems by simp_all
  show ?case
    by (cases "current_file st")
       (simp_all add: Cons.IH[OF rest] parse_step_body[OF nh])
qed

lemma flush_header_body:
  assumes "is_header h" and "\<forall>l\<in>set body. \<not> is_header l"
  shows "flush (foldl parse_step (parse_step st h) body) = flush st @ [file_of_section (h, body)]"
proof -
  have "parse_step st h =
      \<lparr>files = flush st,
       current_file = Some \<lparr>filename = header_filename h, additions = 0, deletions = 0,
                            patch = [], status = ''modified''\<rparr>,
       current_patch = []\<rparr>"
    using assms(1) by (simp add: parse_step_def is_header_def)
  then show ?thesis
    by (simp add: foldl_parse_step_body[OF assms(2)] flush_def file_of_section_def)
qed

lemma flush_foldl_sections:
  "flush (foldl parse_step st ls) =
     flush (foldl parse_step st (takeWhile (\<lambda>x. \<not> is_header x) ls)) @ map file_of_section (sections ls)"
proof (induction ls arbitrary: st)
  case Nil
  show ?case by simp
next
  case (Cons l ls)
  show ?case
  proof (cases "is_header l")
    case True
    have body: "\<forall>x\<in>set (takeWhile (\<lambda>x. \<not> is_header x) ls). \<not> is_header x"
      by (auto dest: set_takeWhileD)
    show ?thesis
      using True Cons.IH[of "parse_step st l"] flush_header_body[OF True body, of st]
      by simp
  next
    case False
    then show ?thesis
      using Cons.IH[of "parse_step st l"] by simp
  qed
qed

lemma parse_lines_sections: "parse_lines ls = map file_of_section (sections ls)"
proof -
  have nh: "\<forall>x\<in>set (takeWhile (\<lambda>x. \<not> is_header x) ls). \<not> is_header x"
    by (auto dest: set_takeWhileD)
  have "flush (foldl parse_step parse_init (takeWhile (\<lambda>x. \<not> is_header x) ls)) = []"
    by (simp add: foldl_parse_step_body[OF nh] flush_def parse_init_def)
  then show ?thesis
    using flush_foldl_sections[of parse_init ls] by (simp add: parse_lines_def)
qed

lemma split_nl_not_Nil: "split_nl s \<noteq> []"
  by (induction s) (auto split: list.splits)

lemma split_nl_append: "split_nl (a @ CHR 0x0A # b) = split_nl a @ split_nl b"
  by (induction a) (auto split: list.splits simp: split_nl_not_Nil)

lemma sections_no_header: "\<forall>l\<in>set pre. \<not> is_header l \<Longrightarrow> sections (pre @ rest) = sections rest"
  by (induction pre) auto
























section \<open>Lemmas about the orchestrator\<close>

lemma foldl_review_step:
  "foldl (review_step self) a fs =
     \<lparr>logic = logic a @ map (\<lambda>f. Some (LogicAnalysisAgent_analyze (logic_agent self) (build_context f)))
                          (filter (\<lambda>f. status f \<noteq> ''deleted'') fs),
      security = security a @ map (\<lambda>f. Some (SecurityAnalysisAgent_analyze (security_agent self) (build_context f)))
                          (filter (\<lambda>f. status f \<noteq> ''deleted'') fs),
      performance = performance a @ map (\<lambda>f. Some (PerformanceAnalysisAgent_analyze (performance_agent self) (build_context f)))
                          (filter (\<lambda>f. status f \<noteq> ''deleted'') fs),
      readability = readability a @ map (\<lambda>f. Some (ReadabilityAnalysisAgent_analyze (readability_agent self) (build_context f)))
                          (filter (\<lambda>f. status f \<noteq> ''deleted'') fs),
      testing = testing a @ map (\<lambda>f. Some (TestingAnalysisAgent_analyze (testing_agent self) (build_context f)))
                          (filter (\<lambda>f. status f \<noteq> ''deleted'') fs)\<rparr>"
proof (induction fs arbitrary: a)
  case Nil
  show ?case by simp
next
  case (Cons f fs)
  show ?case
  proof (cases "status f = ''deleted''")
    case True
    have "review_step self a f = a"
      using True by (simp add: review_step_def)
    then show ?thesis
      using True Cons.IH[of a] by simp
  next
    case False
    let ?a' = "review_step self a f"
    have step: "logic ?a' = logic a @ [Some (LogicAnalysisAgent_analyze (logic_agent self) (build_context f))]"
      "security ?a' = security a @ [Some (SecurityAnalysisAgent_analyze (security_agent self) (build_context f))]"
      "performance ?a' = performance a @ [Some (PerformanceAnalysisAgent_analyze (performance_agent self) (build_context f))]"
      "readability ?a' = readability a @ [Some (ReadabilityAnalysisAgent_analyze (readability_agent self) (build_context f))]"
      "testing ?a' = testing a @ [Some (TestingAnalysisAgent_analyze (testing_agent self) (build_context f))]"
      using False by (simp_all add: review_step_def analyze_file_def Let_def future_result_def)
    have "foldl (review_step self) a (f # fs) = foldl (review_step self) ?a' fs"
      by simp
    also note Cons.IH[of ?a']
    finally show ?thesis
      using False by (simp add: step)
  qed
qed

lemma agent_analyses_review_pr:
  "agent_analyses (review_pr self fs) = foldl (review_step self) no_analyses fs"
  by (simp add: review_pr_def Let_def)

lemma review_review_pr:
  "review (review_pr self fs) =
     generate_aggregated_review self (collect_all_issues (agent_analyses (review_pr self fs)))
       (agent_analyses (review_pr self fs))"
  by (simp add: review_pr_def Let_def)

lemma extend_issues_concat:
  "extend_issues field acc xs = acc @ concat (map (findings field) xs)"
  unfolding extend_issues_def
  by (induction xs arbitrary: acc) (auto simp: findings_def split: option.splits)

lemma collect_all_issues_analyzer_major: "collect_all_issues a = analyzer_major a"
  by (simp add: collect_all_issues_def analyzer_major_def extend_issues_concat)

lemma generate_accepted:
  "aggregator_llm self (prompt_context all a) = Inr result \<Longrightarrow> accepted result \<Longrightarrow>
   generate_aggregated_review self all a = result"
  by (simp add: generate_aggregated_review_def)

lemma generate_fallback:
  "\<forall>result. aggregator_llm self (prompt_context all a) = Inr result \<longrightarrow> \<not> accepted result \<Longrightarrow>
   generate_aggregated_review self all a = basic_review self all a"
  by (auto simp: generate_aggregated_review_def split: sum.splits)

lemma determine_approval_status_rule:
  "determine_approval_status all =
     (if \<exists>i\<in>set all. severity i = CRITICAL \<or> severity i = HIGH then ''CHANGES_REQUESTED''
      else if all \<noteq> [] then ''COMMENTED'' else ''APPROVED'')"
  by (auto simp: determine_approval_status_def is_blocker_def list_ex_iff filter_empty_conv)

lemma category_value_inj: "category_value c = category_value d \<Longrightarrow> c = d"
  by (cases c; cases d) simp_all

lemma sum_update:
  "distinct (map fst d) \<Longrightarrow>
   sum_list (map snd (AList.update k v d)) = sum_list (map snd d) - dict_get d k 0 + v"
proof (induction d)
  case Nil
  show ?case by (simp add: dict_get_def)
next
  case (Cons p d)
  obtain k' v' where p: "p = (k', v')" by (cases p)
  show ?case
  proof (cases "k' = k")
    case True
    then show ?thesis using p by (simp add: dict_get_def)
  next
    case False
    then show ?thesis using p Cons by (simp add: dict_get_def)
  qed
qed

lemma count_step_distinct: "distinct (map fst d) \<Longrightarrow> distinct (map fst (count_step d i))"
  by (simp add: count_step_def distinct_update)

lemma count_step_sum:
  "distinct (map fst d) \<Longrightarrow> sum_list (map snd (count_step d i)) = sum_list (map snd d) + 1"
  by (simp add: count_step_def sum_update)

lemma foldl_count_step:
  "distinct (map fst d) \<Longrightarrow>
   distinct (map fst (foldl count_step d xs)) \<and>
   sum_list (map snd (foldl count_step d xs)) = sum_list (map snd d) + int (length xs)"
proof (induction xs arbitrary: d)
  case Nil
  then show ?case by simp
next
  case (Cons x xs)
  show ?case
    using Cons.IH[OF count_step_distinct[OF Cons.prems, of x]] count_step_sum[OF Cons.prems, of x]
    by simp
qed

lemma sum_count_by_category: "sum_list (map snd (count_by_category all)) = int (length all)"
  using foldl_count_step[of "[]" all] by (simp add: count_by_category_def)

lemma distinct_count_by_category: "distinct (map fst (count_by_category all))"
  using foldl_count_step[of "[]" all] by (simp add: count_by_category_def)

lemma map_of_count_step:
  "map_of (count_step d i) k =
     (if category_value (category i) = k then Some (dict_get d k 0 + 1) else map_of d k)"
  by (simp add: count_step_def update_conv')

lemma map_of_foldl_count_step:
  "map_of (foldl count_step d xs) k =
     (if \<exists>i\<in>set xs. category_value (category i) = k
      then Some (dict_get d k 0 + int (length (filter (\<lambda>i. category_value (category i) = k) xs)))
      else map_of d k)"
proof (induction xs arbitrary: d)
  case Nil
  show ?case by simp
next
  case (Cons x xs)
  show ?case
    by (auto simp: Cons.IH map_of_count_step dict_get_def)
qed

lemma map_of_count_by_category:
  "map_of (count_by_category all) (category_value c) =
     (if \<exists>i\<in>set all. category i = c
      then Some (int (length (filter (\<lambda>i. category i = c) all)))
      else None)"
proof -
  have eq: "\<And>i. (category_value (category i) = category_value c) = (category i = c)"
    using category_value_inj by auto
  show ?thesis
    by (simp add: count_by_category_def map_of_foldl_count_step eq dict_get_def)
qed



text \<open>The definitions unfolded to run the orchestrator on the worked examples.\<close>

lemmas orch_eval =
  review_pr_def review_step_def analyze_file_def no_analyses_def Let_def future_result_def
  collect_all_issues_def extend_issues_def generate_aggregated_review_def basic_review_def
  accepted_def has_required_fields_def determine_approval_status_def is_blocker_def
  quiet_orchestrator_def always_raises_def sample_file_def sample_issue_def logic_reports_def
  answers_with_def approving_review_def commenting_review_def logic_flags_file_def
  security_flags_file_def build_context_def careless_review_def incomplete_review_def
  LogicAnalysisAgent_analyze_def SecurityAnalysisAgent_analyze_def
  PerformanceAnalysisAgent_analyze_def ReadabilityAnalysisAgent_analyze_def
  TestingAnalysisAgent_analyze_def


section \<open>The claims about the parser\<close>




text \<open>
  C8 as stated fails: in a section with a \<open>new file\<close> line the patch is not the section's
  lines after the header joined back together, the status line is missing from it.
\<close>
theorem patch_keeps_status_lines_counterexample:
  "parse_diff ''diff --git a/f b/f\<newline>new file mode 100644\<newline>+x'' =
     [\<lparr>filename = ''f'', additions = 1, deletions = 0, patch = ''+x'', status = ''added''\<rparr>] \<and>
   sections (split_nl ''diff --git a/f b/f\<newline>new file mode 100644\<newline>+x'') =
     [(''diff --git a/f b/f'', [''new file mode 100644'', ''+x''])] \<and>
   map patch (parse_diff ''diff --git a/f b/f\<newline>new file mode 100644\<newline>+x'') \<noteq>
     map (\<lambda>sec. join_nl (snd sec)) (sections (split_nl ''diff --git a/f b/f\<newline>new file mode 100644\<newline>+x''))"
  by (simp add: parse_diff_def parse_lines_def parse_init_def parse_step_def flush_def
                startswith_def header_filename_def dot_plus_eol_def is_header_def)

text \<open>
  C8, amended. For every \<open>FileChange\<close> in the output of \<open>parse_diff\<close>, in order, the patch
  is the lines of the corresponding file section that follow its \<open>diff --git\<close> header
  line, verbatim and joined by newlines, without the lines that start with \<open>new file\<close> or
  \<open>deleted file\<close>.
\<close>
theorem patch_is_section_without_status_lines:
  "map patch (parse_diff s) =
     map (\<lambda>sec. join_nl (filter (\<lambda>l. \<not> is_status_line l) (snd sec))) (sections (split_nl s))"
  by (simp add: parse_diff_def parse_lines_sections file_of_section_def split_def)

text \<open>C8, amended, at a diff of two sections, one created and one deleted.\<close>
theorem patch_is_section_without_status_lines_witness:
  "map patch (parse_diff ''diff --git a/f b/f\<newline>new file mode 100644\<newline>index 0\<newline>+++ b/f\<newline>+x\<newline>diff --git a/g b/g\<newline>deleted file\<newline>-y'') =
     [''index 0\<newline>+++ b/f\<newline>+x'', ''-y'']"
  using patch_is_section_without_status_lines
    [of "''diff --git a/f b/f\<newline>new file mode 100644\<newline>index 0\<newline>+++ b/f\<newline>+x\<newline>diff --git a/g b/g\<newline>deleted file\<newline>-y''"]
  by (simp add: is_header_def is_status_line_def startswith_def)

text \<open>
  C9. The lines of the input before the first \<open>diff --git\<close> header are discarded: the
  output is the output for the rest of the input alone, so they are in no patch, change no
  count and give no record; an input without any header gives the empty list.
\<close>
theorem lines_before_first_header_discarded:
  "\<forall>l\<in>set (split_nl pre). \<not> is_header l \<Longrightarrow>
   parse_diff (pre @ CHR 0x0A # rest) = parse_diff rest \<and> parse_diff pre = []"
proof -
  assume nh: "\<forall>l\<in>set (split_nl pre). \<not> is_header l"
  have "sections (split_nl pre @ split_nl rest) = sections (split_nl rest)"
    using nh by (rule sections_no_header)
  moreover have "sections (split_nl pre @ []) = sections []"
    using nh by (rule sections_no_header)
  ultimately show ?thesis
    by (simp add: parse_diff_def parse_lines_sections split_nl_append)
qed

text \<open>C9, at three lines (one of them marked \<open>+\<close>, one a status line) before a header.\<close>
theorem lines_before_first_header_discarded_witness:
  "\<not> list_ex is_header (split_nl ''junk\<newline>+foo\<newline>new file'') \<and>
   parse_diff ''junk\<newline>+foo\<newline>new file\<newline>diff --git a/f b/f\<newline>+x'' =
     [\<lparr>filename = ''f'', additions = 1, deletions = 0, patch = ''+x'', status = ''modified''\<rparr>] \<and>
   parse_diff ''junk\<newline>+foo\<newline>new file'' = []"
proof -
  have h: "\<forall>l\<in>set (split_nl ''junk\<newline>+foo\<newline>new file''). \<not> is_header l"
    by (simp add: is_header_def startswith_def)
  have r: "parse_diff ''diff --git a/f b/f\<newline>+x'' =
     [\<lparr>filename = ''f'', additions = 1, deletions = 0, patch = ''+x'', status = ''modified''\<rparr>]"
    by (simp add: parse_diff_def parse_lines_def parse_init_def parse_step_def flush_def
                  startswith_def header_filename_def dot_plus_eol_def)
  show ?thesis
    using h r lines_before_first_header_discarded[OF h, of "''diff --git a/f b/f\<newline>+x''"]
    by (simp add: list_ex_iff)
qed




section \<open>The claims about the orchestrator\<close>

text \<open>
  C1 as stated fails: one file, a logic agent that reports a critical finding, and an
  aggregation chain that answers with a review listing that finding under the status
  \<open>APPROVED\<close>. The answer passes the check of the required fields and is returned as it
  is, so the review of a finding set with a critical finding is \<open>APPROVED\<close>.
\<close>
theorem approval_status_ignores_severity_counterexample:
  "collect_all_issues (agent_analyses (review_pr
       (quiet_orchestrator\<lparr>logic_agent := logic_reports [sample_issue LOGIC CRITICAL ''main.py''],
          aggregator_llm := answers_with (approving_review [sample_issue LOGIC CRITICAL ''main.py''])\<rparr>)
       [sample_file ''main.py''])) = [sample_issue LOGIC CRITICAL ''main.py''] \<and>
   all_issues (review (review_pr
       (quiet_orchestrator\<lparr>logic_agent := logic_reports [sample_issue LOGIC CRITICAL ''main.py''],
          aggregator_llm := answers_with (approving_review [sample_issue LOGIC CRITICAL ''main.py''])\<rparr>)
       [sample_file ''main.py''])) = [sample_issue LOGIC CRITICAL ''main.py''] \<and>
   severity (sample_issue LOGIC CRITICAL ''main.py'') = CRITICAL \<and>
   approval_status (review (review_pr
       (quiet_orchestrator\<lparr>logic_agent := logic_reports [sample_issue LOGIC CRITICAL ''main.py''],
          aggregator_llm := answers_with (approving_review [sample_issue LOGIC CRITICAL ''main.py''])\<rparr>)
       [sample_file ''main.py''])) = ''APPROVED''"
  by (simp add: orch_eval)

text \<open>
  C1, amended. The approval status the orchestrator determines from the merged findings is
  \<open>CHANGES_REQUESTED\<close> if and only if at least one finding has severity critical or
  high, otherwise \<open>COMMENTED\<close> if there is a finding, otherwise \<open>APPROVED\<close>. That status is
  the one put in the aggregation prompt. When the aggregation chain returns an answer that
  passes the check of the required fields, the review is that answer, unchanged, whatever
  its status; when the chain raises or its answer fails the check, the review is the one
  the orchestrator builds itself, with the status it determined. \<open>review_pr\<close> returns
  the review so generated from the findings it merged.
\<close>
theorem approval_status_follows_severity:
  "determine_approval_status found =
     (if \<exists>i\<in>set found. severity i = CRITICAL \<or> severity i = HIGH then ''CHANGES_REQUESTED''
      else if found \<noteq> [] then ''COMMENTED'' else ''APPROVED'') \<and>
   (determine_approval_status found = ''CHANGES_REQUESTED'') =
     (\<exists>i\<in>set found. severity i = CRITICAL \<or> severity i = HIGH) \<and>
   ctx_approval_status (prompt_context found a) = determine_approval_status found \<and>
   (aggregator_llm self (prompt_context found a) = Inr result \<and> accepted result \<longrightarrow>
      generate_aggregated_review self found a = result) \<and>
   ((\<forall>r. aggregator_llm self (prompt_context found a) = Inr r \<longrightarrow> \<not> accepted r) \<longrightarrow>
      generate_aggregated_review self found a = basic_review self found a \<and>
      approval_status (generate_aggregated_review self found a) = determine_approval_status found) \<and>
   review (review_pr self fs) =
     generate_aggregated_review self (collect_all_issues (agent_analyses (review_pr self fs)))
       (agent_analyses (review_pr self fs))"
proof (intro conjI impI)
  show "determine_approval_status found =
     (if \<exists>i\<in>set found. severity i = CRITICAL \<or> severity i = HIGH then ''CHANGES_REQUESTED''
      else if found \<noteq> [] then ''COMMENTED'' else ''APPROVED'')"
    by (rule determine_approval_status_rule)
  show "(determine_approval_status found = ''CHANGES_REQUESTED'') =
     (\<exists>i\<in>set found. severity i = CRITICAL \<or> severity i = HIGH)"
    by (simp add: determine_approval_status_rule)
  show "ctx_approval_status (prompt_context found a) = determine_approval_status found"
    by (simp add: prompt_context_def)
  show "generate_aggregated_review self found a = result"
    if "aggregator_llm self (prompt_context found a) = Inr result \<and> accepted result"
    using that generate_accepted[of self found a result] by blast
  assume fb: "\<forall>r. aggregator_llm self (prompt_context found a) = Inr r \<longrightarrow> \<not> accepted r"
  show g: "generate_aggregated_review self found a = basic_review self found a"
    using fb by (rule generate_fallback)
  show "approval_status (generate_aggregated_review self found a) = determine_approval_status found"
    unfolding g by (simp add: basic_review_def)
next
  show "review (review_pr self fs) =
     generate_aggregated_review self (collect_all_issues (agent_analyses (review_pr self fs)))
       (agent_analyses (review_pr self fs))"
    by (rule review_review_pr)
qed

text \<open>
  C1, amended, at an accepted answer of the chain, at a chain that is down, at an answer
  the check refuses, and at the empty finding list.
\<close>
theorem approval_status_follows_severity_witness:
  "generate_aggregated_review
     (quiet_orchestrator\<lparr>aggregator_llm :=
        answers_with (approving_review [sample_issue LOGIC CRITICAL ''main.py''])\<rparr>)
     [sample_issue LOGIC CRITICAL ''main.py''] no_analyses =
     approving_review [sample_issue LOGIC CRITICAL ''main.py''] \<and>
   approval_status (generate_aggregated_review quiet_orchestrator
     [sample_issue LOGIC LOW ''main.py'', sample_issue TESTING HIGH ''main.py''] no_analyses) =
     ''CHANGES_REQUESTED'' \<and>
   approval_status (generate_aggregated_review
     (quiet_orchestrator\<lparr>aggregator_llm := answers_with incomplete_review\<rparr>)
     [sample_issue LOGIC LOW ''main.py''] no_analyses) = ''COMMENTED'' \<and>
   determine_approval_status [] = ''APPROVED''"
proof -
  let ?crit = "[sample_issue LOGIC CRITICAL ''main.py'']"
  let ?mixed = "[sample_issue LOGIC LOW ''main.py'', sample_issue TESTING HIGH ''main.py'']"
  let ?low = "[sample_issue LOGIC LOW ''main.py'']"
  let ?yes = "quiet_orchestrator\<lparr>aggregator_llm := answers_with (approving_review ?crit)\<rparr>"
  let ?bad = "quiet_orchestrator\<lparr>aggregator_llm := answers_with incomplete_review\<rparr>"
  have acc: "aggregator_llm ?yes (prompt_context ?crit no_analyses) = Inr (approving_review ?crit) \<and>
      accepted (approving_review ?crit)"
    by (simp add: orch_eval)
  have down: "\<forall>r. aggregator_llm quiet_orchestrator (prompt_context ?mixed no_analyses) = Inr r
      \<longrightarrow> \<not> accepted r"
    by (simp add: quiet_orchestrator_def always_raises_def)
  have refused: "\<forall>r. aggregator_llm ?bad (prompt_context ?low no_analyses) = Inr r \<longrightarrow> \<not> accepted r"
    by (simp add: orch_eval)
  have one: "generate_aggregated_review ?yes ?crit no_analyses = approving_review ?crit"
    using approval_status_follows_severity
      [where found = ?crit and a = no_analyses and self = ?yes
         and result = "approving_review ?crit" and fs = "[]"] acc
    by blast
  have two: "approval_status (generate_aggregated_review quiet_orchestrator ?mixed no_analyses) =
      ''CHANGES_REQUESTED''"
  proof -
    have "approval_status (generate_aggregated_review quiet_orchestrator ?mixed no_analyses) =
        determine_approval_status ?mixed"
      using approval_status_follows_severity
        [where found = ?mixed and a = no_analyses and self = quiet_orchestrator
           and result = "approving_review ?crit" and fs = "[]"] down
      by blast
    moreover have "determine_approval_status ?mixed = ''CHANGES_REQUESTED''"
      by (simp add: determine_approval_status_def is_blocker_def sample_issue_def)
    ultimately show ?thesis by simp
  qed
  have three: "approval_status (generate_aggregated_review ?bad ?low no_analyses) = ''COMMENTED''"
  proof -
    have "approval_status (generate_aggregated_review ?bad ?low no_analyses) =
        determine_approval_status ?low"
      using approval_status_follows_severity
        [where found = ?low and a = no_analyses and self = ?bad
           and result = "approving_review ?crit" and fs = "[]"] refused
      by blast
    moreover have "determine_approval_status ?low = ''COMMENTED''"
      by (simp add: determine_approval_status_def is_blocker_def sample_issue_def)
    ultimately show ?thesis by simp
  qed
  have four: "determine_approval_status [] = ''APPROVED''"
    by (simp add: determine_approval_status_def)
  show ?thesis using one two three four by simp
qed

text \<open>
  C2 as stated fails twice. For the review the orchestrator builds itself: with 51
  findings of which only the last is critical, and the aggregation chain down, the
  critical finding is in \<open>critical_blockers\<close> and not in \<open>all_issues\<close>, which holds the
  first 50. For an accepted answer of the chain: an answer that lists a critical blocker
  outside its issues is returned as it is.
\<close>
theorem critical_blockers_not_in_all_issues_counterexample:
  "critical_blockers (review (review_pr
       (quiet_orchestrator\<lparr>logic_agent := logic_reports
          (replicate 50 (sample_issue LOGIC LOW ''main.py'') @ [sample_issue LOGIC CRITICAL ''main.py''])\<rparr>)
       [sample_file ''main.py''])) = [sample_issue LOGIC CRITICAL ''main.py''] \<and>
   all_issues (review (review_pr
       (quiet_orchestrator\<lparr>logic_agent := logic_reports
          (replicate 50 (sample_issue LOGIC LOW ''main.py'') @ [sample_issue LOGIC CRITICAL ''main.py''])\<rparr>)
       [sample_file ''main.py''])) = replicate 50 (sample_issue LOGIC LOW ''main.py'') \<and>
   sample_issue LOGIC CRITICAL ''main.py'' \<notin> set (replicate 50 (sample_issue LOGIC LOW ''main.py'')) \<and>
   critical_blockers (review (review_pr
       (quiet_orchestrator\<lparr>aggregator_llm := answers_with careless_review\<rparr>)
       [sample_file ''main.py''])) = [sample_issue SECURITY CRITICAL ''main.py''] \<and>
   all_issues (review (review_pr
       (quiet_orchestrator\<lparr>aggregator_llm := answers_with careless_review\<rparr>)
       [sample_file ''main.py''])) = [sample_issue LOGIC LOW ''main.py''] \<and>
   sample_issue SECURITY CRITICAL ''main.py'' \<notin> set [sample_issue LOGIC LOW ''main.py'']"
  by (simp add: orch_eval)

text \<open>
  C2, amended. When the aggregation chain returns an answer that passes the check of the
  required fields, the review is that answer, unchanged, whatever its lists. When the
  chain raises or its answer fails the check, \<open>critical_blockers\<close> is the first 10 of the
  merged findings with severity critical or high and \<open>all_issues\<close> the first 50 of the
  merged findings. So then every critical blocker is a merged finding of severity critical
  or high; \<open>critical_blockers\<close> is a subset of \<open>all_issues\<close> when there are at most 50
  merged findings; and it is exactly the critical-or-high part of \<open>all_issues\<close> when
  moreover at most 10 of them are critical or high.
\<close>
theorem critical_blockers_of_review:
  "(aggregator_llm self (prompt_context found a) = Inr result \<and> accepted result \<longrightarrow>
      generate_aggregated_review self found a = result) \<and>
   ((\<forall>r. aggregator_llm self (prompt_context found a) = Inr r \<longrightarrow> \<not> accepted r) \<longrightarrow>
    critical_blockers (generate_aggregated_review self found a) =
      take 10 (filter (\<lambda>i. severity i = CRITICAL \<or> severity i = HIGH) found) \<and>
    all_issues (generate_aggregated_review self found a) = take 50 found \<and>
    set (critical_blockers (generate_aggregated_review self found a)) \<subseteq> set found \<and>
    list_all (\<lambda>i. severity i = CRITICAL \<or> severity i = HIGH)
      (critical_blockers (generate_aggregated_review self found a)) \<and>
    (length found \<le> 50 \<longrightarrow>
       set (critical_blockers (generate_aggregated_review self found a))
         \<subseteq> set (all_issues (generate_aggregated_review self found a))) \<and>
    (length found \<le> 50 \<and>
     length (filter (\<lambda>i. severity i = CRITICAL \<or> severity i = HIGH) found) \<le> 10 \<longrightarrow>
       critical_blockers (generate_aggregated_review self found a) =
         filter (\<lambda>i. severity i = CRITICAL \<or> severity i = HIGH)
           (all_issues (generate_aggregated_review self found a))))"
proof (intro conjI impI)
  show "generate_aggregated_review self found a = result"
    if "aggregator_llm self (prompt_context found a) = Inr result \<and> accepted result"
    using that generate_accepted[of self found a result] by blast
next
  let ?hi = "\<lambda>i. severity i = CRITICAL \<or> severity i = HIGH"
  assume fb: "\<forall>r. aggregator_llm self (prompt_context found a) = Inr r \<longrightarrow> \<not> accepted r"
  have g: "generate_aggregated_review self found a = basic_review self found a"
    using fb by (rule generate_fallback)
  have blocker: "is_blocker = ?hi"
    by (simp add: fun_eq_iff is_blocker_def)
  show cb: "critical_blockers (generate_aggregated_review self found a) = take 10 (filter ?hi found)"
    unfolding g by (simp add: basic_review_def blocker)
  show ai: "all_issues (generate_aggregated_review self found a) = take 50 found"
    unfolding g by (simp add: basic_review_def)
  show "set (critical_blockers (generate_aggregated_review self found a)) \<subseteq> set found"
    unfolding cb using set_take_subset[of 10 "filter ?hi found"] by auto
  show "list_all ?hi (critical_blockers (generate_aggregated_review self found a))"
    unfolding cb using set_take_subset[of 10 "filter ?hi found"] by (auto simp: list_all_iff)
  show "set (critical_blockers (generate_aggregated_review self found a))
         \<subseteq> set (all_issues (generate_aggregated_review self found a))"
    if "length found \<le> 50"
    unfolding cb ai using that set_take_subset[of 10 "filter ?hi found"] by auto
  show "critical_blockers (generate_aggregated_review self found a) =
         filter ?hi (all_issues (generate_aggregated_review self found a))"
    if "length found \<le> 50 \<and> length (filter ?hi found) \<le> 10"
    unfolding cb ai using that by simp
qed

text \<open>
  C2, amended, at three findings of which two are blockers with the chain down, and at
  the accepted answer whose critical blocker is outside its issues.
\<close>
theorem critical_blockers_of_review_witness:
  "critical_blockers (generate_aggregated_review quiet_orchestrator
       [sample_issue LOGIC LOW ''a.py'', sample_issue SECURITY HIGH ''a.py'',
        sample_issue LOGIC CRITICAL ''b.py''] no_analyses) =
     [sample_issue SECURITY HIGH ''a.py'', sample_issue LOGIC CRITICAL ''b.py''] \<and>
   all_issues (generate_aggregated_review quiet_orchestrator
       [sample_issue LOGIC LOW ''a.py'', sample_issue SECURITY HIGH ''a.py'',
        sample_issue LOGIC CRITICAL ''b.py''] no_analyses) =
     [sample_issue LOGIC LOW ''a.py'', sample_issue SECURITY HIGH ''a.py'',
      sample_issue LOGIC CRITICAL ''b.py''] \<and>
   generate_aggregated_review (quiet_orchestrator\<lparr>aggregator_llm := answers_with careless_review\<rparr>)
       [sample_issue LOGIC LOW ''a.py''] no_analyses = careless_review"
proof -
  let ?found = "[sample_issue LOGIC LOW ''a.py'', sample_issue SECURITY HIGH ''a.py'',
        sample_issue LOGIC CRITICAL ''b.py'']"
  let ?low = "[sample_issue LOGIC LOW ''a.py'']"
  let ?yes = "quiet_orchestrator\<lparr>aggregator_llm := answers_with careless_review\<rparr>"
  have down: "\<forall>r. aggregator_llm quiet_orchestrator (prompt_context ?found no_analyses) = Inr r
      \<longrightarrow> \<not> accepted r"
    by (simp add: quiet_orchestrator_def always_raises_def)
  have acc: "aggregator_llm ?yes (prompt_context ?low no_analyses) = Inr careless_review \<and>
      accepted careless_review"
    by (simp add: orch_eval)
  have few: "length ?found \<le> 50 \<and>
      length (filter (\<lambda>i. severity i = CRITICAL \<or> severity i = HIGH) ?found) \<le> 10"
    by (simp add: sample_issue_def)
  note fallback = critical_blockers_of_review
      [where self = quiet_orchestrator and found = ?found and a = no_analyses
         and result = careless_review]
  have one: "critical_blockers (generate_aggregated_review quiet_orchestrator ?found no_analyses) =
      [sample_issue SECURITY HIGH ''a.py'', sample_issue LOGIC CRITICAL ''b.py'']"
    using fallback down by (simp add: sample_issue_def)
  have two: "all_issues (generate_aggregated_review quiet_orchestrator ?found no_analyses) = ?found"
    using fallback down by simp
  have three: "generate_aggregated_review ?yes ?low no_analyses = careless_review"
    using critical_blockers_of_review
      [where self = ?yes and found = ?low and a = no_analyses and result = careless_review] acc
    by blast
  show ?thesis using one two three by simp
qed

text \<open>
  C3 as stated fails twice. For the review the orchestrator builds itself: with 51
  findings and the aggregation chain down, the counts of \<open>summary_by_category\<close> add up to
  51 and \<open>all_issues\<close> has 50 entries. For an accepted answer of the chain: an answer with
  a tally of five for its one issue is returned as it is.
\<close>
theorem summary_counts_more_than_all_issues_counterexample:
  "sum_list (map snd (summary_by_category (review (review_pr
       (quiet_orchestrator\<lparr>logic_agent := logic_reports (replicate 51 (sample_issue LOGIC LOW ''main.py''))\<rparr>)
       [sample_file ''main.py''])))) = 51 \<and>
   length (all_issues (review (review_pr
       (quiet_orchestrator\<lparr>logic_agent := logic_reports (replicate 51 (sample_issue LOGIC LOW ''main.py''))\<rparr>)
       [sample_file ''main.py'']))) = 50 \<and>
   sum_list (map snd (summary_by_category (review (review_pr
       (quiet_orchestrator\<lparr>aggregator_llm := answers_with careless_review\<rparr>)
       [sample_file ''main.py''])))) = 5 \<and>
   length (all_issues (review (review_pr
       (quiet_orchestrator\<lparr>aggregator_llm := answers_with careless_review\<rparr>)
       [sample_file ''main.py'']))) = 1"
proof -
  let ?found = "replicate 51 (sample_issue LOGIC LOW ''main.py'')"
  let ?self = "quiet_orchestrator\<lparr>logic_agent := logic_reports ?found\<rparr>"
  have found: "collect_all_issues (agent_analyses (review_pr ?self [sample_file ''main.py''])) = ?found"
    by (simp add: review_pr_def review_step_def analyze_file_def no_analyses_def Let_def
          future_result_def collect_all_issues_def extend_issues_def quiet_orchestrator_def
          sample_file_def logic_reports_def LogicAnalysisAgent_analyze_def
          SecurityAnalysisAgent_analyze_def PerformanceAnalysisAgent_analyze_def
          ReadabilityAnalysisAgent_analyze_def TestingAnalysisAgent_analyze_def)
  have down: "aggregator_llm ?self = always_raises"
    by (simp add: quiet_orchestrator_def)
  have rev: "review (review_pr ?self [sample_file ''main.py'']) =
      basic_review ?self ?found (agent_analyses (review_pr ?self [sample_file ''main.py'']))"
    unfolding review_review_pr found
    by (simp add: generate_aggregated_review_def down always_raises_def)
  have fallback: "sum_list (map snd (summary_by_category (review (review_pr ?self [sample_file ''main.py''])))) = 51 \<and>
      length (all_issues (review (review_pr ?self [sample_file ''main.py'']))) = 50"
    unfolding rev by (simp add: basic_review_def sum_count_by_category)
  have answer: "sum_list (map snd (summary_by_category (review (review_pr
       (quiet_orchestrator\<lparr>aggregator_llm := answers_with careless_review\<rparr>)
       [sample_file ''main.py''])))) = 5 \<and>
     length (all_issues (review (review_pr
       (quiet_orchestrator\<lparr>aggregator_llm := answers_with careless_review\<rparr>)
       [sample_file ''main.py'']))) = 1"
    by (simp add: orch_eval)
  show ?thesis using fallback answer by simp
qed

text \<open>
  C3, amended. The tally the orchestrator computes has each key once; a key is present if
  and only if a merged finding has the category of that value, and its count is the number
  of those findings, so each category is mapped to the number of merged findings of that
  category; the counts add up to the number of merged findings. When the aggregation chain
  returns an answer that passes the check of the required fields, the review is that
  answer, unchanged, whatever its tally. When the chain raises or its answer fails the
  check, \<open>summary_by_category\<close> is that tally of all merged findings and \<open>all_issues\<close> the
  first 50 of them, so the counts add up to the length of \<open>all_issues\<close> when there are at
  most 50 merged findings.
\<close>
theorem summary_by_category_counts:
  "sum_list (map snd (count_by_category found)) = int (length found) \<and>
   distinct (map fst (count_by_category found)) \<and>
   map_of (count_by_category found) k =
     (if \<exists>i\<in>set found. category_value (category i) = k
      then Some (int (length (filter (\<lambda>i. category_value (category i) = k) found)))
      else None) \<and>
   map_of (count_by_category found) (category_value c) =
     (if \<exists>i\<in>set found. category i = c
      then Some (int (length (filter (\<lambda>i. category i = c) found)))
      else None) \<and>
   (aggregator_llm self (prompt_context found a) = Inr result \<and> accepted result \<longrightarrow>
      generate_aggregated_review self found a = result) \<and>
   ((\<forall>r. aggregator_llm self (prompt_context found a) = Inr r \<longrightarrow> \<not> accepted r) \<longrightarrow>
     summary_by_category (generate_aggregated_review self found a) = count_by_category found \<and>
     all_issues (generate_aggregated_review self found a) = take 50 found \<and>
     (length found \<le> 50 \<longrightarrow>
        sum_list (map snd (summary_by_category (generate_aggregated_review self found a))) =
          int (length (all_issues (generate_aggregated_review self found a)))))"
proof (intro conjI impI)
  show "sum_list (map snd (count_by_category found)) = int (length found)"
    by (rule sum_count_by_category)
  show "distinct (map fst (count_by_category found))"
    by (rule distinct_count_by_category)
  show "map_of (count_by_category found) k =
     (if \<exists>i\<in>set found. category_value (category i) = k
      then Some (int (length (filter (\<lambda>i. category_value (category i) = k) found)))
      else None)"
    by (simp add: count_by_category_def map_of_foldl_count_step dict_get_def)
  show "map_of (count_by_category found) (category_value c) =
     (if \<exists>i\<in>set found. category i = c
      then Some (int (length (filter (\<lambda>i. category i = c) found)))
      else None)"
    by (rule map_of_count_by_category)
  show "generate_aggregated_review self found a = result"
    if "aggregator_llm self (prompt_context found a) = Inr result \<and> accepted result"
    using that generate_accepted[of self found a result] by blast
next
  assume fb: "\<forall>r. aggregator_llm self (prompt_context found a) = Inr r \<longrightarrow> \<not> accepted r"
  have g: "generate_aggregated_review self found a = basic_review self found a"
    using fb by (rule generate_fallback)
  show s: "summary_by_category (generate_aggregated_review self found a) = count_by_category found"
    unfolding g by (simp add: basic_review_def)
  show ai: "all_issues (generate_aggregated_review self found a) = take 50 found"
    unfolding g by (simp add: basic_review_def)
  show "sum_list (map snd (summary_by_category (generate_aggregated_review self found a))) =
          int (length (all_issues (generate_aggregated_review self found a)))"
    if "length found \<le> 50"
    unfolding s ai using that by (simp add: sum_count_by_category)
qed

text \<open>
  C3, amended, at three findings in two categories with the chain down, and at the
  accepted answer with a tally of five.
\<close>
theorem summary_by_category_counts_witness:
  "summary_by_category (generate_aggregated_review quiet_orchestrator
       [sample_issue LOGIC LOW ''a.py'', sample_issue SECURITY HIGH ''a.py'',
        sample_issue LOGIC CRITICAL ''b.py''] no_analyses) = [(''logic'', 2), (''security'', 1)] \<and>
   length (all_issues (generate_aggregated_review quiet_orchestrator
       [sample_issue LOGIC LOW ''a.py'', sample_issue SECURITY HIGH ''a.py'',
        sample_issue LOGIC CRITICAL ''b.py''] no_analyses)) = 3 \<and>
   generate_aggregated_review (quiet_orchestrator\<lparr>aggregator_llm := answers_with careless_review\<rparr>)
       [sample_issue LOGIC LOW ''a.py''] no_analyses = careless_review"
proof -
  let ?found = "[sample_issue LOGIC LOW ''a.py'', sample_issue SECURITY HIGH ''a.py'',
        sample_issue LOGIC CRITICAL ''b.py'']"
  let ?low = "[sample_issue LOGIC LOW ''a.py'']"
  let ?yes = "quiet_orchestrator\<lparr>aggregator_llm := answers_with careless_review\<rparr>"
  have down: "\<forall>r. aggregator_llm quiet_orchestrator (prompt_context ?found no_analyses) = Inr r
      \<longrightarrow> \<not> accepted r"
    by (simp add: quiet_orchestrator_def always_raises_def)
  have acc: "aggregator_llm ?yes (prompt_context ?low no_analyses) = Inr careless_review \<and>
      accepted careless_review"
    by (simp add: orch_eval)
  have tally: "count_by_category ?found = [(''logic'', 2), (''security'', 1)]"
    by (simp add: count_by_category_def count_step_def dict_get_def sample_issue_def)
  note fallback = summary_by_category_counts
      [where self = quiet_orchestrator and found = ?found and a = no_analyses
         and result = careless_review and k = "''logic''" and c = LOGIC]
  have one: "summary_by_category (generate_aggregated_review quiet_orchestrator ?found no_analyses) =
      [(''logic'', 2), (''security'', 1)]"
    using fallback down tally by simp
  have two: "length (all_issues (generate_aggregated_review quiet_orchestrator ?found no_analyses)) = 3"
    using fallback down by simp
  have three: "generate_aggregated_review ?yes ?low no_analyses = careless_review"
    using summary_by_category_counts
      [where self = ?yes and found = ?low and a = no_analyses and result = careless_review
         and k = "''logic''" and c = LOGIC] acc
    by blast
  show ?thesis using one two three by simp
qed



text \<open>
  C5 as stated fails: on the empty list of files the aggregation chain is still called,
  and when it answers with a review of one finding under \<open>COMMENTED\<close>, that review is
  what \<open>review_pr\<close> returns.
\<close>
theorem empty_review_not_short_circuited_counterexample:
  "approval_status (review (review_pr
       (quiet_orchestrator\<lparr>aggregator_llm := answers_with commenting_review\<rparr>) [])) = ''COMMENTED'' \<and>
   all_issues (review (review_pr
       (quiet_orchestrator\<lparr>aggregator_llm := answers_with commenting_review\<rparr>) [])) =
     [sample_issue READABILITY LOW ''main.py'']"
  by (simp add: orch_eval)

text \<open>
  C5, amended. On the empty list of files every per-analyzer sequence is empty, no finding
  is merged, and the prompt of the aggregation chain says zero issues and \<open>APPROVED\<close>.
  There is no short-circuit: when the chain returns an answer to that prompt that passes
  the check of the required fields, the review is that answer, unchanged; when the chain
  raises or its answer fails the check, the review has the status \<open>APPROVED\<close>, no issue,
  no critical blocker and an empty tally.
\<close>
theorem review_of_no_files:
  "agent_analyses (review_pr self []) = no_analyses \<and>
   logic (agent_analyses (review_pr self [])) = [] \<and>
   security (agent_analyses (review_pr self [])) = [] \<and>
   performance (agent_analyses (review_pr self [])) = [] \<and>
   readability (agent_analyses (review_pr self [])) = [] \<and>
   testing (agent_analyses (review_pr self [])) = [] \<and>
   collect_all_issues (agent_analyses (review_pr self [])) = [] \<and>
   total_issues (prompt_context [] no_analyses) = 0 \<and>
   ctx_approval_status (prompt_context [] no_analyses) = ''APPROVED'' \<and>
   (aggregator_llm self (prompt_context [] no_analyses) = Inr result \<and> accepted result \<longrightarrow>
      review (review_pr self []) = result) \<and>
   ((\<forall>r. aggregator_llm self (prompt_context [] no_analyses) = Inr r \<longrightarrow> \<not> accepted r) \<longrightarrow>
      approval_status (review (review_pr self [])) = ''APPROVED'' \<and>
      all_issues (review (review_pr self [])) = [] \<and>
      critical_blockers (review (review_pr self [])) = [] \<and>
      summary_by_category (review (review_pr self [])) = [])"
proof -
  have an: "agent_analyses (review_pr self []) = no_analyses"
    by (simp add: agent_analyses_review_pr)
  have found: "collect_all_issues no_analyses = []"
    by (simp add: collect_all_issues_def extend_issues_def no_analyses_def)
  have rv: "review (review_pr self []) = generate_aggregated_review self [] no_analyses"
    unfolding review_review_pr an found ..
  have basic: "approval_status (basic_review self [] no_analyses) = ''APPROVED'' \<and>
      all_issues (basic_review self [] no_analyses) = [] \<and>
      critical_blockers (basic_review self [] no_analyses) = [] \<and>
      summary_by_category (basic_review self [] no_analyses) = []"
    by (simp add: basic_review_def determine_approval_status_def count_by_category_def)
  have ctx: "total_issues (prompt_context [] no_analyses) = 0 \<and>
      ctx_approval_status (prompt_context [] no_analyses) = ''APPROVED''"
    by (simp add: prompt_context_def determine_approval_status_def)
  have pass: "review (review_pr self []) = result"
    if "aggregator_llm self (prompt_context [] no_analyses) = Inr result \<and> accepted result"
    unfolding rv using that generate_accepted[of self "[]" no_analyses result] by blast
  have fall: "review (review_pr self []) = basic_review self [] no_analyses"
    if "\<forall>r. aggregator_llm self (prompt_context [] no_analyses) = Inr r \<longrightarrow> \<not> accepted r"
    unfolding rv using that by (rule generate_fallback)
  have seqs: "logic no_analyses = [] \<and> security no_analyses = [] \<and> performance no_analyses = [] \<and>
      readability no_analyses = [] \<and> testing no_analyses = []"
    by (simp add: no_analyses_def)
  show ?thesis
    using an found ctx basic pass fall seqs by auto
qed

text \<open>
  C5, amended, at an orchestrator whose aggregation chain is down and at one whose chain
  answers with a review of one finding.
\<close>
theorem review_of_no_files_witness:
  "agent_analyses (review_pr quiet_orchestrator []) =
     \<lparr>logic = [], security = [], performance = [], readability = [], testing = []\<rparr> \<and>
   approval_status (review (review_pr quiet_orchestrator [])) = ''APPROVED'' \<and>
   all_issues (review (review_pr quiet_orchestrator [])) = [] \<and>
   review (review_pr (quiet_orchestrator\<lparr>aggregator_llm := answers_with commenting_review\<rparr>) []) =
     commenting_review"
proof -
  let ?yes = "quiet_orchestrator\<lparr>aggregator_llm := answers_with commenting_review\<rparr>"
  have down: "\<forall>r. aggregator_llm quiet_orchestrator (prompt_context [] no_analyses) = Inr r
      \<longrightarrow> \<not> accepted r"
    by (simp add: quiet_orchestrator_def always_raises_def)
  have acc: "aggregator_llm ?yes (prompt_context [] no_analyses) = Inr commenting_review \<and>
      accepted commenting_review"
    by (simp add: orch_eval)
  note quiet = review_of_no_files[where self = quiet_orchestrator and result = commenting_review]
  have one: "agent_analyses (review_pr quiet_orchestrator []) =
     \<lparr>logic = [], security = [], performance = [], readability = [], testing = []\<rparr>"
    using quiet by (simp add: no_analyses_def)
  have two: "approval_status (review (review_pr quiet_orchestrator [])) = ''APPROVED'' \<and>
      all_issues (review (review_pr quiet_orchestrator [])) = []"
    using quiet down by blast
  have three: "review (review_pr ?yes []) = commenting_review"
    using review_of_no_files[where self = ?yes and result = commenting_review] acc by blast
  show ?thesis using one two three by simp
qed

text \<open>
  C6 as stated fails: over two files, with one logic finding and one security finding in
  each, the merged list has both logic findings before both security findings; in file
  order first it would alternate.
\<close>
theorem all_issues_not_file_major_counterexample:
  "collect_all_issues (agent_analyses (review_pr
      (quiet_orchestrator\<lparr>logic_agent := logic_flags_file, security_agent := security_flags_file\<rparr>)
      [sample_file ''a.py'', sample_file ''b.py''])) =
     [sample_issue LOGIC MEDIUM ''a.py'', sample_issue LOGIC MEDIUM ''b.py'',
      sample_issue SECURITY MEDIUM ''a.py'', sample_issue SECURITY MEDIUM ''b.py''] \<and>
   file_major
     (logic (agent_analyses (review_pr
        (quiet_orchestrator\<lparr>logic_agent := logic_flags_file, security_agent := security_flags_file\<rparr>)
        [sample_file ''a.py'', sample_file ''b.py''])))
     (security (agent_analyses (review_pr
        (quiet_orchestrator\<lparr>logic_agent := logic_flags_file, security_agent := security_flags_file\<rparr>)
        [sample_file ''a.py'', sample_file ''b.py''])))
     (performance (agent_analyses (review_pr
        (quiet_orchestrator\<lparr>logic_agent := logic_flags_file, security_agent := security_flags_file\<rparr>)
        [sample_file ''a.py'', sample_file ''b.py''])))
     (readability (agent_analyses (review_pr
        (quiet_orchestrator\<lparr>logic_agent := logic_flags_file, security_agent := security_flags_file\<rparr>)
        [sample_file ''a.py'', sample_file ''b.py''])))
     (testing (agent_analyses (review_pr
        (quiet_orchestrator\<lparr>logic_agent := logic_flags_file, security_agent := security_flags_file\<rparr>)
        [sample_file ''a.py'', sample_file ''b.py'']))) =
     [sample_issue LOGIC MEDIUM ''a.py'', sample_issue SECURITY MEDIUM ''a.py'',
      sample_issue LOGIC MEDIUM ''b.py'', sample_issue SECURITY MEDIUM ''b.py''] \<and>
   sample_issue LOGIC MEDIUM ''b.py'' \<noteq> sample_issue SECURITY MEDIUM ''a.py''"
  by (simp add: orch_eval findings_def)

text \<open>
  C6, amended. The merged list is the flattening in the declared order of the analyzers
  first (logic, security, performance, readability, testing) and, within each analyzer, in
  the order of its sequence, which is the order of the files that are not deleted; a
  \<open>None\<close> entry adds nothing. Nothing is dropped or merged: the length of the list is the
  sum of the lengths of the collections it is made of.
\<close>
theorem all_issues_analyzer_major:
  "collect_all_issues a = analyzer_major a \<and>
   length (collect_all_issues a) =
     sum_list (map (\<lambda>e. length (findings issues e)) (logic a)) +
     sum_list (map (\<lambda>e. length (findings vulnerabilities e)) (security a)) +
     sum_list (map (\<lambda>e. length (findings bottlenecks e)) (performance a)) +
     sum_list (map (\<lambda>e. length (findings style_issues e)) (readability a)) +
     sum_list (map (\<lambda>e. length (findings test_quality_issues e)) (testing a)) \<and>
   collect_all_issues (agent_analyses (review_pr self fs)) =
     concat (map (\<lambda>f. findings issues
                     (Some (LogicAnalysisAgent_analyze (logic_agent self) (build_context f))))
               (filter (\<lambda>f. status f \<noteq> ''deleted'') fs)) @
     concat (map (\<lambda>f. findings vulnerabilities
                     (Some (SecurityAnalysisAgent_analyze (security_agent self) (build_context f))))
               (filter (\<lambda>f. status f \<noteq> ''deleted'') fs)) @
     concat (map (\<lambda>f. findings bottlenecks
                     (Some (PerformanceAnalysisAgent_analyze (performance_agent self) (build_context f))))
               (filter (\<lambda>f. status f \<noteq> ''deleted'') fs)) @
     concat (map (\<lambda>f. findings style_issues
                     (Some (ReadabilityAnalysisAgent_analyze (readability_agent self) (build_context f))))
               (filter (\<lambda>f. status f \<noteq> ''deleted'') fs)) @
     concat (map (\<lambda>f. findings test_quality_issues
                     (Some (TestingAnalysisAgent_analyze (testing_agent self) (build_context f))))
               (filter (\<lambda>f. status f \<noteq> ''deleted'') fs))"
proof (intro conjI)
  show "collect_all_issues a = analyzer_major a"
    by (rule collect_all_issues_analyzer_major)
  show "length (collect_all_issues a) =
     sum_list (map (\<lambda>e. length (findings issues e)) (logic a)) +
     sum_list (map (\<lambda>e. length (findings vulnerabilities e)) (security a)) +
     sum_list (map (\<lambda>e. length (findings bottlenecks e)) (performance a)) +
     sum_list (map (\<lambda>e. length (findings style_issues e)) (readability a)) +
     sum_list (map (\<lambda>e. length (findings test_quality_issues e)) (testing a))"
    by (simp add: collect_all_issues_analyzer_major analyzer_major_def length_concat comp_def)
  show "collect_all_issues (agent_analyses (review_pr self fs)) =
     concat (map (\<lambda>f. findings issues
                     (Some (LogicAnalysisAgent_analyze (logic_agent self) (build_context f))))
               (filter (\<lambda>f. status f \<noteq> ''deleted'') fs)) @
     concat (map (\<lambda>f. findings vulnerabilities
                     (Some (SecurityAnalysisAgent_analyze (security_agent self) (build_context f))))
               (filter (\<lambda>f. status f \<noteq> ''deleted'') fs)) @
     concat (map (\<lambda>f. findings bottlenecks
                     (Some (PerformanceAnalysisAgent_analyze (performance_agent self) (build_context f))))
               (filter (\<lambda>f. status f \<noteq> ''deleted'') fs)) @
     concat (map (\<lambda>f. findings style_issues
                     (Some (ReadabilityAnalysisAgent_analyze (readability_agent self) (build_context f))))
               (filter (\<lambda>f. status f \<noteq> ''deleted'') fs)) @
     concat (map (\<lambda>f. findings test_quality_issues
                     (Some (TestingAnalysisAgent_analyze (testing_agent self) (build_context f))))
               (filter (\<lambda>f. status f \<noteq> ''deleted'') fs))"
    unfolding collect_all_issues_analyzer_major analyzer_major_def agent_analyses_review_pr
      foldl_review_step
    by (simp add: no_analyses_def comp_def)
qed

text \<open>
  C6, amended, at analyses of three files where the same finding is reported by the logic
  and the security analyzer and one finding twice by the logic analyzer.
\<close>
theorem all_issues_analyzer_major_witness:
  "collect_all_issues
     \<lparr>logic = [Some \<lparr>issues = [sample_issue LOGIC LOW ''a.py''], potential_bugs = [], edge_cases_missing = []\<rparr>,
               None,
               Some \<lparr>issues = [sample_issue LOGIC LOW ''c.py'', sample_issue LOGIC LOW ''c.py''],
                     potential_bugs = [], edge_cases_missing = []\<rparr>],
      security = [Some \<lparr>vulnerabilities = [sample_issue LOGIC LOW ''a.py''], security_score = 10,
                        critical_issues = []\<rparr>, None, None],
      performance = [None, None, None], readability = [None, None, None],
      testing = [None, None, None]\<rparr> =
   [sample_issue LOGIC LOW ''a.py'', sample_issue LOGIC LOW ''c.py'', sample_issue LOGIC LOW ''c.py'',
    sample_issue LOGIC LOW ''a.py'']"
  using all_issues_analyzer_major
    [of "\<lparr>logic = [Some \<lparr>issues = [sample_issue LOGIC LOW ''a.py''], potential_bugs = [], edge_cases_missing = []\<rparr>,
               None,
               Some \<lparr>issues = [sample_issue LOGIC LOW ''c.py'', sample_issue LOGIC LOW ''c.py''],
                     potential_bugs = [], edge_cases_missing = []\<rparr>],
      security = [Some \<lparr>vulnerabilities = [sample_issue LOGIC LOW ''a.py''], security_score = 10,
                        critical_issues = []\<rparr>, None, None],
      performance = [None, None, None], readability = [None, None, None],
      testing = [None, None, None]\<rparr>" quiet_orchestrator "[]"]
  by (simp add: analyzer_major_def findings_def)

end
